theory Spec2Isabelle
  imports Main "HOL-Library.Sublist"
begin

section \<open>Byte strings\<close>

text \<open>
  Go strings and byte slices are sequences of bytes: \<^typ>\<open>string\<close>.  The three functions
  below are the byte-level functions of package \<open>strings\<close> that the program calls.
\<close>

definition HasPrefix :: "string \<Rightarrow> string \<Rightarrow> bool" where
  "HasPrefix s p = (length p \<le> length s \<and> take (length p) s = p)"

definition HasSuffix :: "string \<Rightarrow> string \<Rightarrow> bool" where
  "HasSuffix s p = (length p \<le> length s \<and> drop (length s - length p) s = p)"

fun Contains :: "string \<Rightarrow> string \<Rightarrow> bool" where
  "Contains [] sub = (sub = [])"
| "Contains (c # s) sub = (HasPrefix (c # s) sub \<or> Contains s sub)"

text \<open>\<open>filepath.Join\<close> of a cleaned absolute directory path and one entry name.\<close>

definition Join :: "string \<Rightarrow> string \<Rightarrow> string" where
  "Join p n = (if p = ''/'' then p @ n else p @ ''/'' @ n)"

section \<open>The declaration tree of one file (package \<open>go/ast\<close>)\<close>

datatype position = Position (pos_Offset: nat) (pos_Line: nat) (pos_Column: nat)

datatype ident = Ident (id_Name: string) (id_Pos: position)

datatype expr =
    IdentE string
  | StarExpr expr
  | SelectorExpr expr string
  | ArrayType expr
  | MapType expr expr
  | InterfaceType
  | Ellipsis expr
  | FuncType
  | ChanType expr
  | StructType "field list option"
  | OtherExpr
and field =
  Field (fld_Names: "ident list") (fld_Type: expr) (fld_Tag: "string option")
        (fld_Pos: position) (fld_End: position)

text \<open>\<open>token.VAR\<close>, \<open>token.CONST\<close>, \<open>token.TYPE\<close> and \<open>token.IMPORT\<close>.\<close>

datatype token = tok_VAR | tok_CONST | tok_TYPE | tok_IMPORT

text \<open>
  The text that \<open>formatNode\<close> (\<open>printer.Fprint\<close>) prints for a node is carried by the node:
  \<open>vs_Values\<close> holds the printed initialiser expressions of a value specification,
  \<open>fn_Code\<close> and \<open>gd_Code\<close> the printed declarations.
\<close>

datatype spec =
    TypeSpec (ts_Name: ident) (ts_Type: expr) (ts_End: position)
  | ValueSpec (vs_Names: "ident list") (vs_Type: "expr option") (vs_Values: "string list")
              (vs_End: position)
  | ImportSpec

datatype decl =
    FuncDecl (fn_Recv: "field list option") (fn_Name: ident)
             (fn_Params: "field list option") (fn_Results: "field list option")
             (fn_Pos: position) (fn_End: position) (fn_Code: string)
  | GenDecl (gd_Tok: token) (gd_Specs: "spec list")
            (gd_Pos: position) (gd_End: position) (gd_Code: string)
  | BadDecl

record go_file =
  PkgName :: string
  Decls :: "decl list"

section \<open>The environment: library functions and external tools\<close>

text \<open>
  What the program consumes from outside the repository is a parameter of the model:
  the Unicode-aware functions of the standard library, the parser, and the formatting
  tools.  \<open>None\<close> is the failure of a parser or of a tool.
\<close>

record env =
  EqualFold :: "string \<Rightarrow> string \<Rightarrow> bool"
  ToLower :: "string \<Rightarrow> string"
  IsExported :: "string \<Rightarrow> bool"
  ParseFile :: "string \<Rightarrow> go_file option"
  ParsePackageClause :: "string \<Rightarrow> string option"
  format_Source :: "string \<Rightarrow> string option"
  goimports :: "string \<Rightarrow> string option"
  gofmt :: "string \<Rightarrow> string option"
  goimports_w :: "string \<Rightarrow> string option"

section \<open>The file system\<close>

text \<open>
  \<open>files\<close> is what \<open>os.ReadFile\<close> returns for a path (\<open>None\<close>: the read fails),
  \<open>writable\<close> whether \<open>os.WriteFile\<close> succeeds there, and \<open>tree\<close> what
  \<open>filepath.Abs\<close> and \<open>filepath.Walk\<close> see of a directory argument: its absolute path
  and the entries below it, in the order of the walk (\<open>None\<close>: \<open>filepath.Abs\<close> fails).
  An entry carries its base name; \<open>ErrDirN\<close> is a directory that cannot be read, for
  which the walk calls its function with an error.
\<close>

datatype fs_node = FileN string | DirN string "fs_node list" | ErrDirN string

record world =
  files :: "string \<Rightarrow> string option"
  writable :: "string \<Rightarrow> bool"
  tree :: "string \<Rightarrow> (string \<times> fs_node) option"

datatype error =
    AbsError
  | ReadError string
  | ParseError string
  | ReaderError
  | WriteError string
  | NotFound string
  | NotFoundIn string string
  | UnsupportedKind string
  | FormatError
  | Panic

section \<open>symbols.go: rendering of expressions and signatures\<close>

fun formatExpr :: "expr \<Rightarrow> string" where
  "formatExpr (IdentE n) = n"
| "formatExpr (StarExpr x) = ''*'' @ formatExpr x"
| "formatExpr (SelectorExpr x sel) = formatExpr x @ ''.'' @ sel"
| "formatExpr (ArrayType elt) = ''[]'' @ formatExpr elt"
| "formatExpr (MapType k v) = ''map['' @ formatExpr k @ '']'' @ formatExpr v"
| "formatExpr InterfaceType = ''interface{}''"
| "formatExpr (Ellipsis elt) = ''...'' @ formatExpr elt"
| "formatExpr FuncType = ''func(...)''"
| "formatExpr (ChanType v) = ''chan '' @ formatExpr v"
| "formatExpr (StructType fs) = ''?''"
| "formatExpr OtherExpr = ''?''"

text \<open>\<open>strings.Join\<close>.\<close>

fun JoinStrings :: "string list \<Rightarrow> string \<Rightarrow> string" where
  "JoinStrings [] sep = []"
| "JoinStrings [x] sep = x"
| "JoinStrings (x # y # ys) sep = x @ sep @ JoinStrings (y # ys) sep"

text \<open>The loop over a parameter or result list of \<open>formatFuncSignature\<close>.\<close>

fun fieldStrings :: "field list \<Rightarrow> string list" where
  "fieldStrings [] = []"
| "fieldStrings (p # ps) =
     (let ptype = formatExpr (fld_Type p) in
      (if length (fld_Names p) = 0 then [ptype]
       else map (\<lambda>n. id_Name n @ '' '' @ ptype) (fld_Names p)) @ fieldStrings ps)"

definition formatFuncSignature :: "decl \<Rightarrow> string" where
  "formatFuncSignature fn =
     ''func '' @
     (case fn_Recv fn of
        Some (r # rs) \<Rightarrow> ''('' @ formatExpr (fld_Type r) @ '') ''
      | _ \<Rightarrow> '''') @
     id_Name (fn_Name fn) @ ''('' @
     JoinStrings (case fn_Params fn of None \<Rightarrow> [] | Some ps \<Rightarrow> fieldStrings ps) '', '' @
     '')'' @
     (case fn_Results fn of
        None \<Rightarrow> ''''
      | Some [] \<Rightarrow> ''''
      | Some (r # rs) \<Rightarrow>
          '' '' @
          (if length (r # rs) = 1 \<and> length (fld_Names r) = 0 then formatExpr (fld_Type r)
           else ''('' @ JoinStrings (fieldStrings (r # rs)) '', '' @ '')''))"

section \<open>find.go: the name matcher\<close>

definition matchName :: "env \<Rightarrow> string \<Rightarrow> string \<Rightarrow> bool" where
  "matchName E fullName query =
     (if fullName = query then True
      else if EqualFold E fullName query then True
      else if Contains (ToLower E fullName) (ToLower E query) then True
      else False)"

section \<open>find.go: the symbol indexer\<close>

record SymbolLocation =
  Name :: string
  Kind :: string
  File :: string
  Line :: nat
  Column :: nat
  EndLine :: nat
  Exported :: bool
  Signature :: string
  Receiver :: string
  Value :: string
  Type :: string
  Parent :: string

text \<open>The two inner loops over the fields of a struct type and over their names.\<close>

fun fieldNameMatches ::
  "env \<Rightarrow> string \<Rightarrow> string \<Rightarrow> string \<Rightarrow> field \<Rightarrow> ident list \<Rightarrow> SymbolLocation list" where
  "fieldNameMatches E name path typeName fld [] = []"
| "fieldNameMatches E name path typeName fld (fieldName # rest) =
     (let fullFieldName = typeName @ ''.'' @ id_Name fieldName in
      (if matchName E fullFieldName name \<or> matchName E (id_Name fieldName) name
       then [\<lparr>Name = fullFieldName, Kind = ''field'', File = path,
               Line = pos_Line (id_Pos fieldName), Column = pos_Column (id_Pos fieldName),
               EndLine = pos_Line (fld_End fld), Exported = IsExported E (id_Name fieldName),
               Signature = '''', Receiver = '''', Value = '''',
               Type = formatExpr (fld_Type fld), Parent = typeName\<rparr>]
       else []) @ fieldNameMatches E name path typeName fld rest)"

fun structFieldMatches ::
  "env \<Rightarrow> string \<Rightarrow> string \<Rightarrow> string \<Rightarrow> field list \<Rightarrow> SymbolLocation list" where
  "structFieldMatches E name path typeName [] = []"
| "structFieldMatches E name path typeName (fld # rest) =
     fieldNameMatches E name path typeName fld (fld_Names fld) @
     structFieldMatches E name path typeName rest"

text \<open>The loop \<open>for i, ident := range s.Names\<close> of a value specification.\<close>

fun valueNameMatches ::
  "env \<Rightarrow> string \<Rightarrow> string \<Rightarrow> string \<Rightarrow> spec \<Rightarrow> nat \<Rightarrow> ident list \<Rightarrow> SymbolLocation list" where
  "valueNameMatches E name path kind s i [] = []"
| "valueNameMatches E name path kind s i (idt # rest) =
     (if matchName E (id_Name idt) name
      then [\<lparr>Name = id_Name idt, Kind = kind, File = path,
              Line = pos_Line (id_Pos idt), Column = pos_Column (id_Pos idt),
              EndLine = pos_Line (vs_End s), Exported = IsExported E (id_Name idt),
              Signature = '''', Receiver = '''',
              Value = (if length (vs_Values s) > i then vs_Values s ! i else ''''),
              Type = (case vs_Type s of Some t \<Rightarrow> formatExpr t | None \<Rightarrow> ''''),
              Parent = ''''\<rparr>]
      else []) @ valueNameMatches E name path kind s (Suc i) rest"

text \<open>One iteration of \<open>for _, spec := range d.Specs\<close>; \<open>tok\<close> is \<open>d.Tok\<close>.\<close>

fun specMatches ::
  "env \<Rightarrow> string \<Rightarrow> string \<Rightarrow> string \<Rightarrow> token \<Rightarrow> spec \<Rightarrow> SymbolLocation list" where
  "specMatches E name kindFilter path tok (TypeSpec nm ty en) =
     (if kindFilter \<noteq> '''' \<and> kindFilter \<noteq> ''type'' \<and> kindFilter \<noteq> ''field'' then []
      else
        (let typeName = id_Name nm in
         (if kindFilter \<noteq> ''field'' \<and> matchName E typeName name
          then [\<lparr>Name = typeName,
                  Kind = (case ty of InterfaceType \<Rightarrow> ''interface''
                          | StructType fs \<Rightarrow> ''struct'' | _ \<Rightarrow> ''type''),
                  File = path,
                  Line = pos_Line (id_Pos nm), Column = pos_Column (id_Pos nm),
                  EndLine = pos_Line en, Exported = IsExported E typeName,
                  Signature = '''', Receiver = '''', Value = '''', Type = '''',
                  Parent = ''''\<rparr>]
          else []) @
         (case ty of
            StructType (Some flds) \<Rightarrow> structFieldMatches E name path typeName flds
          | _ \<Rightarrow> [])))"
| "specMatches E name kindFilter path tok (ValueSpec nms ty vals en) =
     (let kind = (if tok = tok_CONST then ''const'' else ''var'') in
      if kindFilter \<noteq> '''' \<and> kindFilter \<noteq> kind then []
      else valueNameMatches E name path kind (ValueSpec nms ty vals en) 0 nms)"
| "specMatches E name kindFilter path tok ImportSpec = []"

text \<open>One iteration of \<open>for _, decl := range file.Decls\<close>.\<close>

fun declMatches :: "env \<Rightarrow> string \<Rightarrow> string \<Rightarrow> string \<Rightarrow> decl \<Rightarrow> SymbolLocation list" where
  "declMatches E name kindFilter path (FuncDecl recv nm ps rs p e code) =
     (if kindFilter \<noteq> '''' \<and> kindFilter \<noteq> ''func'' then []
      else
        (let receiver = (case recv of Some (r # rest) \<Rightarrow> formatExpr (fld_Type r) | _ \<Rightarrow> '''');
             funcName = (case recv of Some (r # rest) \<Rightarrow> receiver @ ''.'' @ id_Name nm
                         | _ \<Rightarrow> id_Name nm)
         in if matchName E funcName name \<or> matchName E (id_Name nm) name
            then [\<lparr>Name = funcName, Kind = ''func'', File = path,
                    Line = pos_Line (id_Pos nm), Column = pos_Column (id_Pos nm),
                    EndLine = pos_Line e, Exported = IsExported E (id_Name nm),
                    Signature = formatFuncSignature (FuncDecl recv nm ps rs p e code),
                    Receiver = receiver, Value = '''', Type = '''', Parent = ''''\<rparr>]
            else []))"
| "declMatches E name kindFilter path (GenDecl tok specs p e code) =
     concat (map (specMatches E name kindFilter path tok) specs)"
| "declMatches E name kindFilter path BadDecl = []"

text \<open>The walk function applied to a path that is not a directory.\<close>

definition visitFile :: "env \<Rightarrow> world \<Rightarrow> string \<Rightarrow> string \<Rightarrow> string \<Rightarrow> SymbolLocation list" where
  "visitFile E w name kindFilter path =
     (if \<not> HasSuffix path ''.go'' then []
      else case files w path of
             None \<Rightarrow> []
           | Some src \<Rightarrow>
               (case ParseFile E src of
                  None \<Rightarrow> []
                | Some file \<Rightarrow> concat (map (declMatches E name kindFilter path) (Decls file))))"

text \<open>
  \<open>filepath.Walk\<close> with the walk function of \<open>searchSymbols\<close>: the records appended to
  \<open>matches\<close> while the walk is below \<open>path\<close>, in the order of the walk.  Returning
  \<open>filepath.SkipDir\<close> for a directory is the empty contribution of that directory.
\<close>

fun walkSymbols ::
  "env \<Rightarrow> world \<Rightarrow> string \<Rightarrow> string \<Rightarrow> string \<Rightarrow> string \<Rightarrow> fs_node \<Rightarrow> SymbolLocation list"
and walkSymbolsList ::
  "env \<Rightarrow> world \<Rightarrow> string \<Rightarrow> string \<Rightarrow> string \<Rightarrow> string \<Rightarrow> fs_node list \<Rightarrow> SymbolLocation list"
where
  "walkSymbols E w name kindFilter absDir path (ErrDirN base) = []"
| "walkSymbols E w name kindFilter absDir path (FileN base) =
     visitFile E w name kindFilter path"
| "walkSymbols E w name kindFilter absDir path (DirN base entries) =
     (if path \<noteq> absDir \<and> (HasPrefix base ''.'' \<or> base = ''vendor'') then []
      else walkSymbolsList E w name kindFilter absDir path entries)"
| "walkSymbolsList E w name kindFilter absDir path [] = []"
| "walkSymbolsList E w name kindFilter absDir path (n # ns) =
     walkSymbols E w name kindFilter absDir
       (Join path (case n of FileN b \<Rightarrow> b | DirN b es \<Rightarrow> b | ErrDirN b \<Rightarrow> b)) n @
     walkSymbolsList E w name kindFilter absDir path ns"

definition searchSymbols ::
  "env \<Rightarrow> world \<Rightarrow> string \<Rightarrow> string \<Rightarrow> string \<Rightarrow> error + SymbolLocation list" where
  "searchSymbols E w name dir kindFilter =
     (case tree w dir of
        None \<Rightarrow> Inl AbsError
      | Some (absDir, root) \<Rightarrow> Inr (walkSymbols E w name kindFilter absDir absDir root))"

section \<open>find.go: the resolver\<close>

definition locateSymbol ::
  "env \<Rightarrow> world \<Rightarrow> string \<Rightarrow> string \<Rightarrow> error + SymbolLocation option" where
  "locateSymbol E w name dir =
     (case searchSymbols E w name dir '''' of
        Inl err \<Rightarrow> Inl err
      | Inr matches \<Rightarrow>
          if length matches = 0 then Inr None
          else (case find (\<lambda>m. Name m = name) matches of
                  Some m \<Rightarrow> Inr (Some m)
                | None \<Rightarrow> Inr (Some (matches ! 0))))"

definition locateFunc ::
  "env \<Rightarrow> world \<Rightarrow> string \<Rightarrow> string \<Rightarrow> error + SymbolLocation option" where
  "locateFunc E w name dir =
     (case searchSymbols E w name dir ''func'' of
        Inl err \<Rightarrow> Inl err
      | Inr matches \<Rightarrow>
          if length matches = 0 then Inr None
          else (case find (\<lambda>m. Name m = name) matches of
                  Some m \<Rightarrow> Inr (Some m)
                | None \<Rightarrow> Inr (Some (matches ! 0))))"

definition locateType ::
  "env \<Rightarrow> world \<Rightarrow> string \<Rightarrow> string \<Rightarrow> error + SymbolLocation option" where
  "locateType E w name dir =
     (case searchSymbols E w name dir ''type'' of
        Inl err \<Rightarrow> Inl err
      | Inr matches \<Rightarrow>
          if length matches = 0 then Inr None
          else (case find (\<lambda>m. Name m = name) matches of
                  Some m \<Rightarrow> Inr (Some m)
                | None \<Rightarrow> Inr (Some (matches ! 0))))"

section \<open>symbols.go: the package lookup\<close>

text \<open>
  The loop over \<open>os.ReadDir(path)\<close> of \<open>findPackageByName\<close> skips directories, files
  that are not Go files and test files, looks at the first file that is left, and ends
  (\<open>break\<close>).  \<open>firstCandidate\<close> is the name of that file.
\<close>

fun firstCandidate :: "fs_node list \<Rightarrow> string option" where
  "firstCandidate [] = None"
| "firstCandidate (DirN b es # rest) = firstCandidate rest"
| "firstCandidate (ErrDirN b # rest) = firstCandidate rest"
| "firstCandidate (FileN b # rest) =
     (if \<not> HasSuffix b ''.go'' \<or> HasSuffix b ''_test.go'' then firstCandidate rest
      else Some b)"

text \<open>
  \<open>filepath.Walk\<close> with the walk function of \<open>findPackageByName\<close>: \<open>Some p\<close> when the walk
  below \<open>path\<close> sets \<open>result = p\<close> and ends with \<open>filepath.SkipAll\<close>, \<open>None\<close> when it goes on.
\<close>

fun walkPackage ::
  "env \<Rightarrow> world \<Rightarrow> string \<Rightarrow> string \<Rightarrow> string \<Rightarrow> fs_node \<Rightarrow> string option"
and walkPackageList ::
  "env \<Rightarrow> world \<Rightarrow> string \<Rightarrow> string \<Rightarrow> string \<Rightarrow> fs_node list \<Rightarrow> string option"
where
  "walkPackage E w name absDir path (ErrDirN base) = None"
| "walkPackage E w name absDir path (FileN base) = None"
| "walkPackage E w name absDir path (DirN base entries) =
     (if path \<noteq> absDir \<and> (HasPrefix base ''.'' \<or> base = ''vendor'' \<or> base = ''testdata'')
      then None
      else
        (case firstCandidate entries of
           None \<Rightarrow> walkPackageList E w name absDir path entries
         | Some e \<Rightarrow>
             (case (case files w (Join path e) of
                      None \<Rightarrow> None
                    | Some src \<Rightarrow> ParsePackageClause E src) of
                None \<Rightarrow> walkPackageList E w name absDir path entries
              | Some pkg \<Rightarrow>
                  if pkg = name then Some path
                  else walkPackageList E w name absDir path entries)))"
| "walkPackageList E w name absDir path [] = None"
| "walkPackageList E w name absDir path (n # ns) =
     (case walkPackage E w name absDir
             (Join path (case n of FileN b \<Rightarrow> b | DirN b es \<Rightarrow> b | ErrDirN b \<Rightarrow> b)) n of
        Some p \<Rightarrow> Some p
      | None \<Rightarrow> walkPackageList E w name absDir path ns)"

text \<open>
  \<open>findPackageByName\<close> drops the error of \<open>filepath.Abs\<close>; the walk from the empty path
  that follows finds nothing.  The pair \<open>(result, found)\<close> is the option.
\<close>

definition findPackageByName :: "env \<Rightarrow> world \<Rightarrow> string \<Rightarrow> string \<Rightarrow> string option" where
  "findPackageByName E w name dir =
     (case tree w dir of
        None \<Rightarrow> None
      | Some (absDir, root) \<Rightarrow> walkPackage E w name absDir absDir root)"

section \<open>symbols.go: the formatter adapter\<close>

text \<open>
  \<open>formatSource\<close> returns a buffer and an error; the error is \<open>None\<close> for \<open>nil\<close>.
\<close>

definition formatSource :: "env \<Rightarrow> string \<Rightarrow> string \<times> error option" where
  "formatSource E src =
     (case format_Source E src of
        Some formatted \<Rightarrow> (formatted, None)
      | None \<Rightarrow>
          (case goimports E src of
             Some out \<Rightarrow> (out, None)
           | None \<Rightarrow>
               (case gofmt E src of
                  Some out \<Rightarrow> (out, None)
                | None \<Rightarrow> (src, Some FormatError))))"

text \<open>
  Every mutating function ends in the same statements:
  \<^verbatim>\<open>formatted, err := formatSource(result); if err != nil { formatted = result }\<close>
  and \<^verbatim>\<open>os.WriteFile(file, formatted, 0644)\<close>.
\<close>

definition formatOrKeep :: "env \<Rightarrow> string \<Rightarrow> string" where
  "formatOrKeep E result =
     (case formatSource E result of
        (formatted, None) \<Rightarrow> formatted
      | (formatted, Some err) \<Rightarrow> result)"

definition WriteFile :: "world \<Rightarrow> string \<Rightarrow> string \<Rightarrow> world option" where
  "WriteFile w file data =
     (if writable w file then Some (w\<lparr>files := (files w)(file \<mapsto> data)\<rparr>) else None)"

text \<open>\<^verbatim>\<open>exec.Command("goimports", "-w", file).Run()\<close>, its error dropped.\<close>

definition runGoimports :: "env \<Rightarrow> world \<Rightarrow> string \<Rightarrow> world" where
  "runGoimports E w file =
     (case files w file of
        None \<Rightarrow> w
      | Some src \<Rightarrow>
          (case goimports_w E src of
             None \<Rightarrow> w
           | Some out \<Rightarrow> (case WriteFile w file out of None \<Rightarrow> w | Some w' \<Rightarrow> w')))"

section \<open>The span mutator for functions and methods\<close>


record ModifyResult =
  mr_Success :: bool
  mr_File :: string
  mr_Message :: string

definition matchFunc :: "decl \<Rightarrow> string \<Rightarrow> bool" where
  "matchFunc fn name =
     (if id_Name (fn_Name fn) = name then True
      else
        (case fn_Recv fn of
           Some (r # rs) \<Rightarrow>
             (let recv = formatExpr (fld_Type r);
                  fullName = recv @ ''.'' @ id_Name (fn_Name fn)
              in if fullName = name then True
                 else if length recv > 0 \<and> recv ! 0 = CHR ''*''
                         \<and> drop 1 recv @ ''.'' @ id_Name (fn_Name fn) = name then True
                 else False)
         | _ \<Rightarrow> False))"

text \<open>The loop over \<open>f.Decls\<close> that \<open>ReadFunc\<close>, \<open>ReplaceFunc\<close> and \<open>DeleteFunc\<close> share.\<close>

fun findFuncDecl :: "decl list \<Rightarrow> string \<Rightarrow> decl option" where
  "findFuncDecl [] name = None"
| "findFuncDecl (FuncDecl recv nm ps rs p e code # ds) name =
     (if matchFunc (FuncDecl recv nm ps rs p e code) name
      then Some (FuncDecl recv nm ps rs p e code)
      else findFuncDecl ds name)"
| "findFuncDecl (d # ds) name = findFuncDecl ds name"

text \<open>The start of every function of the file: \<open>file == ""\<close> asks the resolver.\<close>

definition resolveFile ::
  "(string \<Rightarrow> error + SymbolLocation option) \<Rightarrow> string \<Rightarrow> string \<Rightarrow> error + string" where
  "resolveFile locate name file =
     (if file = '''' then
        (case locate name of
           Inl err \<Rightarrow> Inl err
         | Inr None \<Rightarrow> Inl (NotFound name)
         | Inr (Some loc) \<Rightarrow> Inr (File loc))
      else Inr file)"


text \<open>
  The three appends of the replace functions.  A slice bound beyond the buffer is a
  run-time panic.
\<close>

definition splice :: "string \<Rightarrow> nat \<Rightarrow> nat \<Rightarrow> string \<Rightarrow> error + string" where
  "splice src startPos endPos newCodeBytes =
     (if length src < startPos \<or> length src < endPos then Inl Panic
      else Inr (take startPos src @ newCodeBytes @ drop endPos src))"

text \<open>
  The loop of the delete functions:
  \<^verbatim>\<open>for endPos < len(src) && (src[endPos] == '\n' || src[endPos] == '\r') { endPos++ }\<close>
\<close>

function skipLineBreaks :: "string \<Rightarrow> nat \<Rightarrow> nat" where
  "skipLineBreaks src endPos =
     (if endPos < length src \<and> (src ! endPos = CHR 0x0A \<or> src ! endPos = CHR 0x0D)
      then skipLineBreaks src (endPos + 1) else endPos)"
  by pat_completeness auto
termination
  by (relation "measure (\<lambda>(src, endPos). length src - endPos)") auto

declare skipLineBreaks.simps [simp del]

definition cut :: "string \<Rightarrow> nat \<Rightarrow> nat \<Rightarrow> error + string" where
  "cut src startPos endPos0 =
     (let endPos = skipLineBreaks src endPos0 in
      if length src < startPos \<or> length src < endPos then Inl Panic
      else Inr (take startPos src @ drop endPos src))"

text \<open>Formatting, writing back and the result, shared by all mutating functions.\<close>

definition writeBack ::
  "env \<Rightarrow> world \<Rightarrow> string \<Rightarrow> string \<Rightarrow> string \<Rightarrow> (error + ModifyResult) \<times> world" where
  "writeBack E w file result message =
     (case WriteFile w file (formatOrKeep E result) of
        None \<Rightarrow> (Inl (WriteError file), w)
      | Some w' \<Rightarrow>
          (Inr \<lparr>mr_Success = True, mr_File = file, mr_Message = message\<rparr>, w'))"

definition ReplaceFunc ::
  "env \<Rightarrow> world \<Rightarrow> string \<Rightarrow> string \<Rightarrow> string option \<Rightarrow> (error + ModifyResult) \<times> world" where
  "ReplaceFunc E w name file0 newCode =
     (case resolveFile (\<lambda>n. locateFunc E w n ''.'') name file0 of
        Inl err \<Rightarrow> (Inl err, w)
      | Inr file \<Rightarrow>
     (case files w file of
        None \<Rightarrow> (Inl (ReadError file), w)
      | Some src \<Rightarrow>
     (case ParseFile E src of
        None \<Rightarrow> (Inl (ParseError file), w)
      | Some f \<Rightarrow>
     (case findFuncDecl (Decls f) name of
        None \<Rightarrow> (Inl (NotFoundIn name file), w)
      | Some funcDecl \<Rightarrow>
     (case newCode of
        None \<Rightarrow> (Inl ReaderError, w)
      | Some newCodeBytes \<Rightarrow>
     (case splice src (pos_Offset (fn_Pos funcDecl)) (pos_Offset (fn_End funcDecl))
             newCodeBytes of
        Inl err \<Rightarrow> (Inl err, w)
      | Inr result \<Rightarrow> writeBack E w file result (''replaced function '' @ name)))))))"

definition DeleteFunc ::
  "env \<Rightarrow> world \<Rightarrow> string \<Rightarrow> string \<Rightarrow> (error + ModifyResult) \<times> world" where
  "DeleteFunc E w name file0 =
     (case resolveFile (\<lambda>n. locateFunc E w n ''.'') name file0 of
        Inl err \<Rightarrow> (Inl err, w)
      | Inr file \<Rightarrow>
     (case files w file of
        None \<Rightarrow> (Inl (ReadError file), w)
      | Some src \<Rightarrow>
     (case ParseFile E src of
        None \<Rightarrow> (Inl (ParseError file), w)
      | Some f \<Rightarrow>
     (case findFuncDecl (Decls f) name of
        None \<Rightarrow> (Inl (NotFoundIn name file), w)
      | Some funcDecl \<Rightarrow>
     (case cut src (pos_Offset (fn_Pos funcDecl)) (pos_Offset (fn_End funcDecl)) of
        Inl err \<Rightarrow> (Inl err, w)
      | Inr result \<Rightarrow> writeBack E w file result (''deleted function '' @ name))))))"

definition AddFunc ::
  "env \<Rightarrow> world \<Rightarrow> string \<Rightarrow> string option \<Rightarrow> (error + ModifyResult) \<times> world" where
  "AddFunc E w file newCode =
     (case files w file of
        None \<Rightarrow> (Inl (ReadError file), w)
      | Some src \<Rightarrow>
     (case newCode of
        None \<Rightarrow> (Inl ReaderError, w)
      | Some newCodeBytes \<Rightarrow>
          writeBack E w file (src @ [CHR 0x0A, CHR 0x0A] @ newCodeBytes @ [CHR 0x0A])
            ''function added''))"

text \<open>
  The second half of the move functions, after the read and the delete: the append
  to the destination and the two runs of \<open>goimports\<close>.
\<close>

definition appendToDst ::
  "env \<Rightarrow> world \<Rightarrow> string \<Rightarrow> string \<Rightarrow> string \<Rightarrow> string \<Rightarrow> (error + ModifyResult) \<times> world" where
  "appendToDst E w dstFile srcFile code message =
     (case files w dstFile of
        None \<Rightarrow> (Inl (ReadError dstFile), w)
      | Some dstSrc \<Rightarrow>
     (case WriteFile w dstFile (dstSrc @ [CHR 0x0A, CHR 0x0A] @ code @ [CHR 0x0A]) of
        None \<Rightarrow> (Inl (WriteError dstFile), w)
      | Some w1 \<Rightarrow>
          (Inr \<lparr>mr_Success = True, mr_File = dstFile, mr_Message = message\<rparr>,
           runGoimports E (runGoimports E w1 dstFile) srcFile)))"


section \<open>types.go: the span mutator for types\<close>

record ReadTypeResult =
  rt_Success :: bool
  rt_Name :: string
  rt_Kind :: string
  rt_File :: string
  rt_Line :: nat
  rt_EndLine :: nat
  rt_Code :: string

text \<open>The first type specification of a declaration that has the name.\<close>

fun findTypeSpec :: "spec list \<Rightarrow> string \<Rightarrow> spec option" where
  "findTypeSpec [] name = None"
| "findTypeSpec (TypeSpec nm ty en # rest) name =
     (if id_Name nm \<noteq> name then findTypeSpec rest name else Some (TypeSpec nm ty en))"
| "findTypeSpec (s # rest) name = findTypeSpec rest name"

text \<open>The loops of \<open>ReadType\<close>, which return at the first type specification found.\<close>

fun readTypeDecl :: "decl list \<Rightarrow> string \<Rightarrow> (decl \<times> spec) option" where
  "readTypeDecl [] name = None"
| "readTypeDecl (GenDecl tok specs p e code # ds) name =
     (if tok \<noteq> tok_TYPE then readTypeDecl ds name
      else (case findTypeSpec specs name of
              Some typeSpec \<Rightarrow> Some (GenDecl tok specs p e code, typeSpec)
            | None \<Rightarrow> readTypeDecl ds name))"
| "readTypeDecl (d # ds) name = readTypeDecl ds name"

text \<open>
  The loops of \<open>ReplaceType\<close> and \<open>DeleteType\<close>: \<open>break\<close> leaves the loop over the
  specifications only, the loop over the declarations runs to its end and
  \<open>targetDecl\<close>, the third argument, is assigned at every declaration that has the name.
\<close>

fun findTypeDecl :: "decl list \<Rightarrow> string \<Rightarrow> decl option \<Rightarrow> decl option" where
  "findTypeDecl [] name targetDecl = targetDecl"
| "findTypeDecl (GenDecl tok specs p e code # ds) name targetDecl =
     (if tok \<noteq> tok_TYPE then findTypeDecl ds name targetDecl
      else (case findTypeSpec specs name of
              Some typeSpec \<Rightarrow> findTypeDecl ds name (Some (GenDecl tok specs p e code))
            | None \<Rightarrow> findTypeDecl ds name targetDecl))"
| "findTypeDecl (d # ds) name targetDecl = findTypeDecl ds name targetDecl"

definition ReadType :: "env \<Rightarrow> world \<Rightarrow> string \<Rightarrow> string \<Rightarrow> error + ReadTypeResult" where
  "ReadType E w name file0 =
     (case resolveFile (\<lambda>n. locateType E w n ''.'') name file0 of
        Inl err \<Rightarrow> Inl err
      | Inr file \<Rightarrow>
     (case files w file of
        None \<Rightarrow> Inl (ReadError file)
      | Some src \<Rightarrow>
     (case ParseFile E src of
        None \<Rightarrow> Inl (ParseError file)
      | Some f \<Rightarrow>
     (case readTypeDecl (Decls f) name of
        None \<Rightarrow> Inl (NotFoundIn name file)
      | Some (genDecl, typeSpec) \<Rightarrow>
          Inr \<lparr>rt_Success = True,
               rt_Name = id_Name (ts_Name typeSpec),
               rt_Kind = (case ts_Type typeSpec of InterfaceType \<Rightarrow> ''interface''
                          | StructType fs \<Rightarrow> ''struct'' | _ \<Rightarrow> ''type''),
               rt_File = file,
               rt_Line = pos_Line (gd_Pos genDecl),
               rt_EndLine = pos_Line (gd_End genDecl),
               rt_Code = gd_Code genDecl\<rparr>))))"

definition ReplaceType ::
  "env \<Rightarrow> world \<Rightarrow> string \<Rightarrow> string \<Rightarrow> string option \<Rightarrow> (error + ModifyResult) \<times> world" where
  "ReplaceType E w name file0 newCode =
     (case resolveFile (\<lambda>n. locateType E w n ''.'') name file0 of
        Inl err \<Rightarrow> (Inl err, w)
      | Inr file \<Rightarrow>
     (case files w file of
        None \<Rightarrow> (Inl (ReadError file), w)
      | Some src \<Rightarrow>
     (case ParseFile E src of
        None \<Rightarrow> (Inl (ParseError file), w)
      | Some f \<Rightarrow>
     (case findTypeDecl (Decls f) name None of
        None \<Rightarrow> (Inl (NotFoundIn name file), w)
      | Some targetDecl \<Rightarrow>
     (case newCode of
        None \<Rightarrow> (Inl ReaderError, w)
      | Some newCodeBytes \<Rightarrow>
     (case splice src (pos_Offset (gd_Pos targetDecl)) (pos_Offset (gd_End targetDecl))
             newCodeBytes of
        Inl err \<Rightarrow> (Inl err, w)
      | Inr result \<Rightarrow> writeBack E w file result (''replaced type '' @ name)))))))"

definition DeleteType ::
  "env \<Rightarrow> world \<Rightarrow> string \<Rightarrow> string \<Rightarrow> (error + ModifyResult) \<times> world" where
  "DeleteType E w name file0 =
     (case resolveFile (\<lambda>n. locateType E w n ''.'') name file0 of
        Inl err \<Rightarrow> (Inl err, w)
      | Inr file \<Rightarrow>
     (case files w file of
        None \<Rightarrow> (Inl (ReadError file), w)
      | Some src \<Rightarrow>
     (case ParseFile E src of
        None \<Rightarrow> (Inl (ParseError file), w)
      | Some f \<Rightarrow>
     (case findTypeDecl (Decls f) name None of
        None \<Rightarrow> (Inl (NotFoundIn name file), w)
      | Some targetDecl \<Rightarrow>
     (case cut src (pos_Offset (gd_Pos targetDecl)) (pos_Offset (gd_End targetDecl)) of
        Inl err \<Rightarrow> (Inl err, w)
      | Inr result \<Rightarrow> writeBack E w file result (''deleted type '' @ name))))))"

definition MoveType ::
  "env \<Rightarrow> world \<Rightarrow> string \<Rightarrow> string \<Rightarrow> string \<Rightarrow> (error + ModifyResult) \<times> world" where
  "MoveType E w name dstFile srcFile0 =
     (case resolveFile (\<lambda>n. locateType E w n ''.'') name srcFile0 of
        Inl err \<Rightarrow> (Inl err, w)
      | Inr srcFile \<Rightarrow>
     (case ReadType E w name srcFile of
        Inl err \<Rightarrow> (Inl err, w)
      | Inr readResult \<Rightarrow>
     (case DeleteType E w name srcFile of
        (Inl err, w1) \<Rightarrow> (Inl err, w1)
      | (Inr deleted, w1) \<Rightarrow>
          appendToDst E w1 dstFile srcFile (rt_Code readResult)
            (''moved type '' @ name @ '' from '' @ srcFile @ '' to '' @ dstFile))))"

section \<open>The span mutator for variables and constants\<close>

definition locateVarConst ::
  "env \<Rightarrow> world \<Rightarrow> string \<Rightarrow> string \<Rightarrow> error + SymbolLocation option" where
  "locateVarConst E w name dir =
     (case searchSymbols E w name dir '''' of
        Inl err \<Rightarrow> Inl err
      | Inr matches \<Rightarrow>
          (case find (\<lambda>m. (Kind m = ''var'' \<or> Kind m = ''const'') \<and> Name m = name) matches of
             Some m \<Rightarrow> Inr (Some m)
           | None \<Rightarrow>
               if length matches > 0
               then Inr (find (\<lambda>m. Kind m = ''var'' \<or> Kind m = ''const'') matches)
               else Inr None))"

record ReadVarConstResult =
  rv_Success :: bool
  rv_Name :: string
  rv_Kind :: string
  rv_File :: string
  rv_Line :: nat
  rv_EndLine :: nat
  rv_Type :: string
  rv_Value :: string
  rv_Code :: string

text \<open>The loop \<open>for i, ident := range valueSpec.Names\<close>: the first index with the name.\<close>

fun findValueName :: "ident list \<Rightarrow> string \<Rightarrow> nat \<Rightarrow> nat option" where
  "findValueName [] name i = None"
| "findValueName (idt # rest) name i =
     (if id_Name idt = name then Some i else findValueName rest name (Suc i))"

fun findValueSpec :: "spec list \<Rightarrow> string \<Rightarrow> (spec \<times> nat) option" where
  "findValueSpec [] name = None"
| "findValueSpec (ValueSpec nms ty vals en # rest) name =
     (case findValueName nms name 0 of
        Some i \<Rightarrow> Some (ValueSpec nms ty vals en, i)
      | None \<Rightarrow> findValueSpec rest name)"
| "findValueSpec (s # rest) name = findValueSpec rest name"

text \<open>The loops of \<open>ReadVarConst\<close>, which return at the first name found.\<close>

fun readVarConstDecl :: "decl list \<Rightarrow> string \<Rightarrow> (decl \<times> spec \<times> nat) option" where
  "readVarConstDecl [] name = None"
| "readVarConstDecl (GenDecl tok specs p e code # ds) name =
     (if tok \<noteq> tok_VAR \<and> tok \<noteq> tok_CONST then readVarConstDecl ds name
      else (case findValueSpec specs name of
              Some (valueSpec, i) \<Rightarrow> Some (GenDecl tok specs p e code, valueSpec, i)
            | None \<Rightarrow> readVarConstDecl ds name))"
| "readVarConstDecl (d # ds) name = readVarConstDecl ds name"

text \<open>
  The loops of \<open>ReplaceVarConst\<close> and \<open>DeleteVarConst\<close>: \<open>break\<close> leaves the loop over
  the names only, so \<open>targetDecl\<close> is assigned at every declaration that has the name.
\<close>

fun findVarConstDecl :: "decl list \<Rightarrow> string \<Rightarrow> decl option \<Rightarrow> decl option" where
  "findVarConstDecl [] name targetDecl = targetDecl"
| "findVarConstDecl (GenDecl tok specs p e code # ds) name targetDecl =
     (if tok \<noteq> tok_VAR \<and> tok \<noteq> tok_CONST then findVarConstDecl ds name targetDecl
      else (case findValueSpec specs name of
              Some found \<Rightarrow> findVarConstDecl ds name (Some (GenDecl tok specs p e code))
            | None \<Rightarrow> findVarConstDecl ds name targetDecl))"
| "findVarConstDecl (d # ds) name targetDecl = findVarConstDecl ds name targetDecl"

definition ReadVarConst ::
  "env \<Rightarrow> world \<Rightarrow> string \<Rightarrow> string \<Rightarrow> error + ReadVarConstResult" where
  "ReadVarConst E w name file0 =
     (case resolveFile (\<lambda>n. locateVarConst E w n ''.'') name file0 of
        Inl err \<Rightarrow> Inl err
      | Inr file \<Rightarrow>
     (case files w file of
        None \<Rightarrow> Inl (ReadError file)
      | Some src \<Rightarrow>
     (case ParseFile E src of
        None \<Rightarrow> Inl (ParseError file)
      | Some f \<Rightarrow>
     (case readVarConstDecl (Decls f) name of
        None \<Rightarrow> Inl (NotFoundIn name file)
      | Some (genDecl, valueSpec, i) \<Rightarrow>
          Inr \<lparr>rv_Success = True,
               rv_Name = name,
               rv_Kind = (if gd_Tok genDecl = tok_CONST then ''const'' else ''var''),
               rv_File = file,
               rv_Line = pos_Line (gd_Pos genDecl),
               rv_EndLine = pos_Line (gd_End genDecl),
               rv_Type = (case vs_Type valueSpec of Some t \<Rightarrow> formatExpr t | None \<Rightarrow> ''''),
               rv_Value = (if length (vs_Values valueSpec) > i
                           then vs_Values valueSpec ! i else ''''),
               rv_Code = gd_Code genDecl\<rparr>))))"

definition ReplaceVarConst ::
  "env \<Rightarrow> world \<Rightarrow> string \<Rightarrow> string \<Rightarrow> string option \<Rightarrow> (error + ModifyResult) \<times> world" where
  "ReplaceVarConst E w name file0 newCode =
     (case resolveFile (\<lambda>n. locateVarConst E w n ''.'') name file0 of
        Inl err \<Rightarrow> (Inl err, w)
      | Inr file \<Rightarrow>
     (case files w file of
        None \<Rightarrow> (Inl (ReadError file), w)
      | Some src \<Rightarrow>
     (case ParseFile E src of
        None \<Rightarrow> (Inl (ParseError file), w)
      | Some f \<Rightarrow>
     (case findVarConstDecl (Decls f) name None of
        None \<Rightarrow> (Inl (NotFoundIn name file), w)
      | Some targetDecl \<Rightarrow>
     (case newCode of
        None \<Rightarrow> (Inl ReaderError, w)
      | Some newCodeBytes \<Rightarrow>
     (case splice src (pos_Offset (gd_Pos targetDecl)) (pos_Offset (gd_End targetDecl))
             newCodeBytes of
        Inl err \<Rightarrow> (Inl err, w)
      | Inr result \<Rightarrow> writeBack E w file result (''replaced var/const '' @ name)))))))"

definition DeleteVarConst ::
  "env \<Rightarrow> world \<Rightarrow> string \<Rightarrow> string \<Rightarrow> (error + ModifyResult) \<times> world" where
  "DeleteVarConst E w name file0 =
     (case resolveFile (\<lambda>n. locateVarConst E w n ''.'') name file0 of
        Inl err \<Rightarrow> (Inl err, w)
      | Inr file \<Rightarrow>
     (case files w file of
        None \<Rightarrow> (Inl (ReadError file), w)
      | Some src \<Rightarrow>
     (case ParseFile E src of
        None \<Rightarrow> (Inl (ParseError file), w)
      | Some f \<Rightarrow>
     (case findVarConstDecl (Decls f) name None of
        None \<Rightarrow> (Inl (NotFoundIn name file), w)
      | Some targetDecl \<Rightarrow>
     (case cut src (pos_Offset (gd_Pos targetDecl)) (pos_Offset (gd_End targetDecl)) of
        Inl err \<Rightarrow> (Inl err, w)
      | Inr result \<Rightarrow> writeBack E w file result (''deleted var/const '' @ name))))))"

definition MoveVarConst ::
  "env \<Rightarrow> world \<Rightarrow> string \<Rightarrow> string \<Rightarrow> string \<Rightarrow> (error + ModifyResult) \<times> world" where
  "MoveVarConst E w name dstFile srcFile0 =
     (case resolveFile (\<lambda>n. locateVarConst E w n ''.'') name srcFile0 of
        Inl err \<Rightarrow> (Inl err, w)
      | Inr srcFile \<Rightarrow>
     (case ReadVarConst E w name srcFile of
        Inl err \<Rightarrow> (Inl err, w)
      | Inr readResult \<Rightarrow>
     (case DeleteVarConst E w name srcFile of
        (Inl err, w1) \<Rightarrow> (Inl err, w1)
      | (Inr deleted, w1) \<Rightarrow>
          appendToDst E w1 dstFile srcFile (rv_Code readResult)
            (''moved '' @ name @ '' from '' @ srcFile @ '' to '' @ dstFile))))"

section \<open>The kind dispatcher\<close>

definition Replace ::
  "env \<Rightarrow> world \<Rightarrow> string \<Rightarrow> string \<Rightarrow> string option \<Rightarrow> (error + ModifyResult) \<times> world" where
  "Replace E w name file0 newCode =
     (case locateSymbol E w name ''.'' of
        Inl err \<Rightarrow> (Inl err, w)
      | Inr None \<Rightarrow> (Inl (NotFound name), w)
      | Inr (Some loc) \<Rightarrow>
          (let file = (if file0 = '''' then File loc else file0) in
           if Kind loc = ''func'' then ReplaceFunc E w name file newCode
           else if Kind loc = ''struct'' \<or> Kind loc = ''interface'' \<or> Kind loc = ''type''
           then ReplaceType E w name file newCode
           else if Kind loc = ''var'' \<or> Kind loc = ''const''
           then ReplaceVarConst E w name file newCode
           else (Inl (UnsupportedKind (Kind loc)), w)))"

definition Delete ::
  "env \<Rightarrow> world \<Rightarrow> string \<Rightarrow> string \<Rightarrow> (error + ModifyResult) \<times> world" where
  "Delete E w name file0 =
     (case locateSymbol E w name ''.'' of
        Inl err \<Rightarrow> (Inl err, w)
      | Inr None \<Rightarrow> (Inl (NotFound name), w)
      | Inr (Some loc) \<Rightarrow>
          (let file = (if file0 = '''' then File loc else file0) in
           if Kind loc = ''func'' then DeleteFunc E w name file
           else if Kind loc = ''struct'' \<or> Kind loc = ''interface'' \<or> Kind loc = ''type''
           then DeleteType E w name file
           else if Kind loc = ''var'' \<or> Kind loc = ''const''
           then DeleteVarConst E w name file
           else (Inl (UnsupportedKind (Kind loc)), w)))"

section \<open>An environment and a file system for the examples\<close>

text \<open>
  On strings of ASCII characters \<open>strings.ToLower\<close> maps \<open>A\<close> to \<open>Z\<close> to \<open>a\<close> to \<open>z\<close> and
  leaves every other character, \<open>strings.EqualFold\<close> compares the lowered strings, and
  \<open>ast.IsExported\<close> asks whether the first character is one of \<open>A\<close> to \<open>Z\<close>.  The examples
  run in this environment, with a parser given by a table of sources, and without the
  tools \<open>goimports\<close> and \<open>gofmt\<close> installed.
\<close>

definition asciiLower :: "char \<Rightarrow> char" where
  "asciiLower c =
     (case map_of (zip ''ABCDEFGHIJKLMNOPQRSTUVWXYZ'' ''abcdefghijklmnopqrstuvwxyz'') c of
        Some l \<Rightarrow> l
      | None \<Rightarrow> c)"

definition asciiEnv :: "(string \<times> go_file) list \<Rightarrow> (string \<Rightarrow> string option) \<Rightarrow> env" where
  "asciiEnv parsed fmt =
     \<lparr>EqualFold = (\<lambda>s t. map asciiLower s = map asciiLower t),
      ToLower = map asciiLower,
      IsExported = (\<lambda>s. case s of [] \<Rightarrow> False | c # cs \<Rightarrow> c \<in> set ''ABCDEFGHIJKLMNOPQRSTUVWXYZ''),
      ParseFile = map_of parsed,
      ParsePackageClause = (\<lambda>src. map_option PkgName (map_of parsed src)),
      format_Source = fmt,
      goimports = (\<lambda>src. None),
      gofmt = (\<lambda>src. None),
      goimports_w = (\<lambda>src. None)\<rparr>"

text \<open>
  A file system with the given files, all of them writable, whose current directory
  \<open>.\<close> is the given tree.
\<close>

definition mkWorld :: "(string \<times> string) list \<Rightarrow> (string \<times> fs_node) option \<Rightarrow> world" where
  "mkWorld fs t =
     \<lparr>files = map_of fs, writable = (\<lambda>p. True), tree = (\<lambda>d. if d = ''.'' then t else None)\<rparr>"

text \<open>The example files.  Each source comes with the declaration tree that the Go parser builds for it: offsets count bytes from 0, lines and columns from 1.\<close>

definition userDelete_src :: "string" where
  "userDelete_src =
     ''package p'' @ [CHR 0x0A, CHR 0x0A] @ ''func UserDelete() {'' @ [CHR 0x0A] @ ''}'' @ [CHR 0x0A]"

definition userDelete_ast :: "go_file" where
  "userDelete_ast =
     \<lparr>PkgName = ''p'', Decls =
      [FuncDecl None (Ident ''UserDelete'' (Position 16 3 6)) (Some []) None (Position 11 3 1) (Position 32 4 2)
       (''func UserDelete() {'' @ [CHR 0x0A] @ ''}'')]\<rparr>"

definition delete_src :: "string" where
  "delete_src =
     ''package p'' @ [CHR 0x0A, CHR 0x0A] @ ''func Delete() {'' @ [CHR 0x0A] @ ''}'' @ [CHR 0x0A]"

definition delete_ast :: "go_file" where
  "delete_ast =
     \<lparr>PkgName = ''p'', Decls =
      [FuncDecl None (Ident ''Delete'' (Position 16 3 6)) (Some []) None (Position 11 3 1) (Position 28 4 2)
       (''func Delete() {'' @ [CHR 0x0A] @ ''}'')]\<rparr>"

definition user_src :: "string" where
  "user_src =
     ''package p'' @ [CHR 0x0A, CHR 0x0A] @ ''type User struct {'' @ [CHR 0x0A, CHR 0x09] @ ''ID int'' @ [CHR 0x0A] @ ''}'' @ [CHR 0x0A]"

definition user_ast :: "go_file" where
  "user_ast =
     \<lparr>PkgName = ''p'', Decls =
      [GenDecl tok_TYPE [TypeSpec (Ident ''User'' (Position 16 3 6)) (StructType (Some [Field [Ident ''ID'' (Position 31 4 2)] (IdentE ''int'') None (Position 31 4 2) (Position 37 4 8)])) (Position 39 5 2)] (Position 11 3 1) (Position 39 5 2)
       (''type User struct {'' @ [CHR 0x0A, CHR 0x09] @ ''ID int'' @ [CHR 0x0A] @ ''}'')]\<rparr>"


definition sample_ast :: "go_file" where
  "sample_ast =
     \<lparr>PkgName = ''p'', Decls =
      [GenDecl tok_CONST [ValueSpec [(Ident ''Version'' (Position 17 3 7))] None [[CHR 0x22] @ ''2.0.0'' @ [CHR 0x22]] (Position 34 3 24)] (Position 11 3 1) (Position 34 3 24)
       (''const Version = '' @ [CHR 0x22] @ ''2.0.0'' @ [CHR 0x22]),
       GenDecl tok_TYPE [TypeSpec (Ident ''User'' (Position 41 5 6)) (StructType (Some [Field [Ident ''ID'' (Position 56 6 2)] (IdentE ''int'') None (Position 56 6 2) (Position 62 6 8)])) (Position 64 7 2)] (Position 36 5 1) (Position 64 7 2)
       (''type User struct {'' @ [CHR 0x0A, CHR 0x09] @ ''ID int'' @ [CHR 0x0A] @ ''}''),
       FuncDecl None (Ident ''helper'' (Position 71 9 6)) (Some []) None (Position 66 9 1) (Position 83 10 2)
       (''func helper() {'' @ [CHR 0x0A] @ ''}''),
       FuncDecl None (Ident ''ProcessOrder'' (Position 90 12 6)) (Some []) None (Position 85 12 1) (Position 108 13 2)
       (''func ProcessOrder() {'' @ [CHR 0x0A] @ ''}'')]\<rparr>"



definition moveA_src :: "string" where
  "moveA_src =
     ''package p'' @ [CHR 0x0A, CHR 0x0A] @ ''type T struct {'' @ [CHR 0x0A, CHR 0x09] @ ''n int'' @ [CHR 0x0A] @ ''}'' @ [CHR 0x0A, CHR 0x0A] @ ''func (t T) Run() {'' @ [CHR 0x0A] @ ''}'' @ [CHR 0x0A]"

definition moveA_ast :: "go_file" where
  "moveA_ast =
     \<lparr>PkgName = ''p'', Decls =
      [GenDecl tok_TYPE [TypeSpec (Ident ''T'' (Position 16 3 6)) (StructType (Some [Field [Ident ''n'' (Position 28 4 2)] (IdentE ''int'') None (Position 28 4 2) (Position 33 4 7)])) (Position 35 5 2)] (Position 11 3 1) (Position 35 5 2)
       (''type T struct {'' @ [CHR 0x0A, CHR 0x09] @ ''n int'' @ [CHR 0x0A] @ ''}''),
       FuncDecl (Some [Field [Ident ''t'' (Position 43 7 7)] (IdentE ''T'') None (Position 43 7 7) (Position 46 7 10)]) (Ident ''Run'' (Position 48 7 12)) (Some []) None (Position 37 7 1) (Position 57 8 2)
       (''func (t T) Run() {'' @ [CHR 0x0A] @ ''}'')]\<rparr>"

definition moveB_src :: "string" where
  "moveB_src =
     ''package p'' @ [CHR 0x0A, CHR 0x0A] @ ''func Run() {'' @ [CHR 0x0A] @ ''}'' @ [CHR 0x0A]"

definition moveB_ast :: "go_file" where
  "moveB_ast =
     \<lparr>PkgName = ''p'', Decls =
      [FuncDecl None (Ident ''Run'' (Position 16 3 6)) (Some []) None (Position 11 3 1) (Position 25 4 2)
       (''func Run() {'' @ [CHR 0x0A] @ ''}'')]\<rparr>"

definition moveB1_src :: "string" where
  "moveB1_src =
     ''package p'' @ [CHR 0x0A, CHR 0x0A] @ ''func Run() {'' @ [CHR 0x0A] @ ''}'' @ [CHR 0x0A, CHR 0x0A, CHR 0x0A] @ ''func (t T) Run() {'' @ [CHR 0x0A] @ ''}'' @ [CHR 0x0A]"

definition moveB1_ast :: "go_file" where
  "moveB1_ast =
     \<lparr>PkgName = ''p'', Decls =
      [FuncDecl None (Ident ''Run'' (Position 16 3 6)) (Some []) None (Position 11 3 1) (Position 25 4 2)
       (''func Run() {'' @ [CHR 0x0A] @ ''}''),
       FuncDecl (Some [Field [Ident ''t'' (Position 34 7 7)] (IdentE ''T'') None (Position 34 7 7) (Position 37 7 10)]) (Ident ''Run'' (Position 39 7 12)) (Some []) None (Position 28 7 1) (Position 48 8 2)
       (''func (t T) Run() {'' @ [CHR 0x0A] @ ''}'')]\<rparr>"

definition moveA1raw_src :: "string" where
  "moveA1raw_src =
     ''package p'' @ [CHR 0x0A, CHR 0x0A] @ ''type T struct {'' @ [CHR 0x0A, CHR 0x09] @ ''n int'' @ [CHR 0x0A] @ ''}'' @ [CHR 0x0A, CHR 0x0A]"

definition moveA1_src :: "string" where
  "moveA1_src =
     ''package p'' @ [CHR 0x0A, CHR 0x0A] @ ''type T struct {'' @ [CHR 0x0A, CHR 0x09] @ ''n int'' @ [CHR 0x0A] @ ''}'' @ [CHR 0x0A]"

definition moveB2_src :: "string" where
  "moveB2_src =
     ''package p'' @ [CHR 0x0A, CHR 0x0A] @ ''func (t T) Run() {'' @ [CHR 0x0A] @ ''}'' @ [CHR 0x0A]"

definition moveA2_src :: "string" where
  "moveA2_src =
     ''package p'' @ [CHR 0x0A, CHR 0x0A] @ ''type T struct {'' @ [CHR 0x0A, CHR 0x09] @ ''n int'' @ [CHR 0x0A] @ ''}'' @ [CHR 0x0A, CHR 0x0A, CHR 0x0A] @ ''func Run() {'' @ [CHR 0x0A] @ ''}'' @ [CHR 0x0A]"

definition moveA2_ast :: "go_file" where
  "moveA2_ast =
     \<lparr>PkgName = ''p'', Decls =
      [GenDecl tok_TYPE [TypeSpec (Ident ''T'' (Position 16 3 6)) (StructType (Some [Field [Ident ''n'' (Position 28 4 2)] (IdentE ''int'') None (Position 28 4 2) (Position 33 4 7)])) (Position 35 5 2)] (Position 11 3 1) (Position 35 5 2)
       (''type T struct {'' @ [CHR 0x0A, CHR 0x09] @ ''n int'' @ [CHR 0x0A] @ ''}''),
       FuncDecl None (Ident ''Run'' (Position 43 8 6)) (Some []) None (Position 38 8 1) (Position 52 9 2)
       (''func Run() {'' @ [CHR 0x0A] @ ''}'')]\<rparr>"

definition version3_code :: "string" where
  "version3_code =
     ''const Version = '' @ [CHR 0x22] @ ''3.0.0'' @ [CHR 0x22]"

definition sampleV3_src :: "string" where
  "sampleV3_src =
     ''package p'' @ [CHR 0x0A, CHR 0x0A] @ ''const Version = '' @ [CHR 0x22] @ ''3.0.0'' @ [CHR 0x22, CHR 0x0A, CHR 0x0A] @ ''type User struct {'' @ [CHR 0x0A, CHR 0x09] @ ''ID int'' @ [CHR 0x0A] @ ''}'' @ [CHR 0x0A, CHR 0x0A] @ ''func helper() {'' @ [CHR 0x0A] @ ''}'' @ [CHR 0x0A, CHR 0x0A] @ ''func ProcessOrder() {'' @ [CHR 0x0A] @ ''}'' @ [CHR 0x0A]"




text \<open>
  The project of the resolver example: \<open>a.go\<close> declares \<open>UserDelete\<close>, \<open>b.go\<close> declares
  \<open>Delete\<close>, and the walk visits \<open>a.go\<close> first.
\<close>

definition resolverEnv :: env where
  "resolverEnv = asciiEnv [(userDelete_src, userDelete_ast), (delete_src, delete_ast)] Some"

definition resolverWorld :: world where
  "resolverWorld =
     mkWorld [(''/p/a.go'', userDelete_src), (''/p/b.go'', delete_src)]
       (Some (''/p'', DirN ''p'' [FileN ''a.go'', FileN ''b.go'']))"

definition userDelete_loc :: SymbolLocation where
  "userDelete_loc =
     \<lparr>Name = ''UserDelete'', Kind = ''func'', File = ''/p/a.go'', Line = 3, Column = 6,
      EndLine = 4, Exported = True, Signature = ''func UserDelete()'', Receiver = '''',
      Value = '''', Type = '''', Parent = ''''\<rparr>"

definition delete_loc :: SymbolLocation where
  "delete_loc =
     \<lparr>Name = ''Delete'', Kind = ''func'', File = ''/p/b.go'', Line = 3, Column = 6,
      EndLine = 4, Exported = True, Signature = ''func Delete()'', Receiver = '''',
      Value = '''', Type = '''', Parent = ''''\<rparr>"

text \<open>The project of the kind-filter example: one file that declares the struct \<open>User\<close>.\<close>

definition userEnv :: env where
  "userEnv = asciiEnv [(user_src, user_ast)] Some"

definition userWorld :: world where
  "userWorld = mkWorld [(''/p/user.go'', user_src)] (Some (''/p'', DirN ''p'' [FileN ''user.go'']))"

definition user_loc :: SymbolLocation where
  "user_loc =
     \<lparr>Name = ''User'', Kind = ''struct'', File = ''/p/user.go'', Line = 3, Column = 6,
      EndLine = 5, Exported = True, Signature = '''', Receiver = '''',
      Value = '''', Type = '''', Parent = ''''\<rparr>"

definition userID_loc :: SymbolLocation where
  "userID_loc =
     \<lparr>Name = ''User.ID'', Kind = ''field'', File = ''/p/user.go'', Line = 4, Column = 2,
      EndLine = 4, Exported = True, Signature = '''', Receiver = '''',
      Value = '''', Type = ''int'', Parent = ''User''\<rparr>"

text \<open>The two functions and the constant of \<open>sample.go\<close>, as the parser gives them.\<close>

definition helper_decl :: decl where
  "helper_decl =
     FuncDecl None (Ident ''helper'' (Position 71 9 6)) (Some []) None
       (Position 66 9 1) (Position 83 10 2) (''func helper() {'' @ [CHR 0x0A] @ ''}'')"


definition version_decl :: decl where
  "version_decl =
     GenDecl tok_CONST
       [ValueSpec [(Ident ''Version'' (Position 17 3 7))] None [[CHR 0x22] @ ''2.0.0'' @ [CHR 0x22]]
          (Position 34 3 24)]
       (Position 11 3 1) (Position 34 3 24) (''const Version = '' @ [CHR 0x22] @ ''2.0.0'' @ [CHR 0x22])"

section \<open>Predicates used in the statements\<close>

fun isFuncDecl :: "decl \<Rightarrow> bool" where
  "isFuncDecl (FuncDecl recv nm ps rs p e code) = True"
| "isFuncDecl d = False"

text \<open>The kinds of record that a kind filter lets through.\<close>

definition kindAllowed :: "string \<Rightarrow> string \<Rightarrow> bool" where
  "kindAllowed kindFilter k =
     (if kindFilter = '''' then
        k \<in> {''func'', ''type'', ''struct'', ''interface'', ''field'', ''var'', ''const''}
      else if kindFilter = ''func'' then k = ''func''
      else if kindFilter = ''type'' then k \<in> {''type'', ''struct'', ''interface'', ''field''}
      else if kindFilter = ''field'' then k = ''field''
      else if kindFilter = ''var'' then k = ''var''
      else if kindFilter = ''const'' then k = ''const''
      else False)"

section \<open>Facts about the string functions\<close>

lemma HasPrefix_iff: "HasPrefix s p \<longleftrightarrow> (\<exists>post. s = p @ post)"
  unfolding HasPrefix_def
  by (metis append_eq_conv_conj append_take_drop_id length_append le_add1)

lemma Contains_iff: "Contains s sub \<longleftrightarrow> (\<exists>pre post. s = pre @ sub @ post)"
proof (induction s)
  case Nil
  then show ?case by auto
next
  case (Cons c s)
  show ?case
  proof
    assume "Contains (c # s) sub"
    then consider "HasPrefix (c # s) sub" | "Contains s sub" by auto
    then show "\<exists>pre post. c # s = pre @ sub @ post"
    proof cases
      case 1
      then obtain post where "c # s = sub @ post" by (auto simp: HasPrefix_iff)
      then have "c # s = [] @ sub @ post" by simp
      then show ?thesis by blast
    next
      case 2
      then obtain pre post where "s = pre @ sub @ post" using Cons.IH by blast
      then have "c # s = (c # pre) @ sub @ post" by simp
      then show ?thesis by blast
    qed
  next
    assume "\<exists>pre post. c # s = pre @ sub @ post"
    then obtain pre post where e: "c # s = pre @ sub @ post" by blast
    show "Contains (c # s) sub"
    proof (cases pre)
      case Nil
      then have "HasPrefix (c # s) sub" using e by (auto simp: HasPrefix_iff)
      then show ?thesis by simp
    next
      case (Cons a pre')
      then have "s = pre' @ sub @ post" using e by simp
      then have "Contains s sub" using Cons.IH by blast
      then show ?thesis by simp
    qed
  qed
qed

lemma asciiEnv_simps:
  "EqualFold (asciiEnv parsed fmt) s t = (map asciiLower s = map asciiLower t)"
  "ToLower (asciiEnv parsed fmt) = map asciiLower"
  "ParseFile (asciiEnv parsed fmt) = map_of parsed"
  "format_Source (asciiEnv parsed fmt) = fmt"
  "goimports (asciiEnv parsed fmt) = (\<lambda>src. None)"
  "gofmt (asciiEnv parsed fmt) = (\<lambda>src. None)"
  "goimports_w (asciiEnv parsed fmt) = (\<lambda>src. None)"
  by (simp_all add: asciiEnv_def)

lemma mkWorld_simps:
  "files (mkWorld fs t) = map_of fs"
  "writable (mkWorld fs t) p"
  "tree (mkWorld fs t) ''.'' = t"
  by (simp_all add: mkWorld_def)

section \<open>Facts about the examples\<close>





section \<open>Facts about the lookup of a function inside one file\<close>














lemma sample_find_helper:
  "find (\<lambda>d. isFuncDecl d \<and> matchFunc d ''helper'') (Decls sample_ast) = Some helper_decl"
  by (simp add: sample_ast_def matchFunc_def helper_decl_def)

section \<open>The name matcher\<close>

text \<open>
  Claim C8.  For all strings \<open>candidate\<close> and \<open>query\<close>, \<open>matchName\<close> is true exactly when
  the two are equal, or equal under \<open>strings.EqualFold\<close>, or the lowered query is a
  substring of the lowered candidate.  In particular it is true for \<open>ProcessOrder\<close> and
  \<open>processorder\<close>, and for \<open>UserService.Create\<close> and \<open>Create\<close>.
\<close>

theorem matchName_three_conditions:
  "(matchName E candidate query \<longleftrightarrow>
      candidate = query \<or> EqualFold E candidate query \<or>
      (\<exists>pre post. ToLower E candidate = pre @ ToLower E query @ post)) \<and>
   matchName (asciiEnv parsed fmt) ''ProcessOrder'' ''processorder'' \<and>
   matchName (asciiEnv parsed fmt) ''UserService.Create'' ''Create''"
proof (intro conjI)
  show "matchName E candidate query \<longleftrightarrow>
      candidate = query \<or> EqualFold E candidate query \<or>
      (\<exists>pre post. ToLower E candidate = pre @ ToLower E query @ post)"
    by (simp add: matchName_def Contains_iff)
  show "matchName (asciiEnv parsed fmt) ''ProcessOrder'' ''processorder''"
    by (simp add: matchName_def asciiEnv_simps asciiLower_def)
  show "matchName (asciiEnv parsed fmt) ''UserService.Create'' ''Create''"
    by (simp add: matchName_def asciiEnv_simps asciiLower_def HasPrefix_def)
qed

section \<open>Lookup of a function inside one file\<close>



section \<open>The resolver\<close>

lemma find_first:
  "find P xs = Some m \<Longrightarrow> \<exists>pre post. xs = pre @ m # post \<and> (\<forall>x\<in>set pre. \<not> P x) \<and> P m"
proof (induction xs)
  case Nil
  then show ?case by simp
next
  case (Cons a xs)
  show ?case
  proof (cases "P a")
    case True
    with Cons.prems have "a = m" by simp
    with True have "a # xs = [] @ m # xs \<and> (\<forall>x\<in>set []. \<not> P x) \<and> P m" by simp
    then show ?thesis by blast
  next
    case False
    with Cons.prems have "find P xs = Some m" by simp
    with Cons.IH obtain pre post where
      "xs = pre @ m # post" "\<forall>x\<in>set pre. \<not> P x" "P m" by blast
    with False have "a # xs = (a # pre) @ m # post \<and> (\<forall>x\<in>set (a # pre). \<not> P x) \<and> P m"
      by simp
    then show ?thesis by blast
  qed
qed

lemma resolver_search:
  "searchSymbols resolverEnv resolverWorld ''Delete'' ''.'' '''' = Inr [userDelete_loc, delete_loc]"
  by (simp add: searchSymbols_def resolverWorld_def mkWorld_simps Join_def visitFile_def
      HasSuffix_def resolverEnv_def asciiEnv_def userDelete_src_def delete_src_def
      userDelete_ast_def delete_ast_def matchName_def asciiLower_def HasPrefix_def
      formatFuncSignature_def userDelete_loc_def delete_loc_def)

lemma resolver_search_lower:
  "searchSymbols resolverEnv resolverWorld ''delete'' ''.'' '''' = Inr [userDelete_loc, delete_loc]"
  by (simp add: searchSymbols_def resolverWorld_def mkWorld_simps Join_def visitFile_def
      HasSuffix_def resolverEnv_def asciiEnv_def userDelete_src_def delete_src_def
      userDelete_ast_def delete_ast_def matchName_def asciiLower_def HasPrefix_def
      formatFuncSignature_def userDelete_loc_def delete_loc_def)

lemma resolver_search_none:
  "searchSymbols resolverEnv resolverWorld ''Create'' ''.'' '''' = Inr []"
  by (simp add: searchSymbols_def resolverWorld_def mkWorld_simps Join_def visitFile_def
      HasSuffix_def resolverEnv_def asciiEnv_def userDelete_src_def delete_src_def
      userDelete_ast_def delete_ast_def matchName_def asciiLower_def HasPrefix_def)

text \<open>
  Claim C1.  The resolver runs the indexer without a kind filter.  If a record of the
  result has exactly the queried name, the resolver returns the first such record of
  the walk; otherwise it returns the first record; if there is no record it returns
  none, which the dispatchers \<open>Replace\<close> and \<open>Delete\<close> report as not found.  An error
  of the indexer is passed on.  In the project where the walk finds \<open>UserDelete\<close> before
  \<open>Delete\<close>, the query \<open>Delete\<close> resolves to the record named \<open>Delete\<close>.
\<close>

theorem locateSymbol_policy:
  "(searchSymbols E w name dir '''' = Inl err \<longrightarrow> locateSymbol E w name dir = Inl err) \<and>
   (searchSymbols E w name dir '''' = Inr ms \<longrightarrow>
      (ms = [] \<longrightarrow> locateSymbol E w name dir = Inr None) \<and>
      ((\<exists>m\<in>set ms. Name m = name) \<longrightarrow>
         (\<exists>pre m post. ms = pre @ m # post \<and> (\<forall>x\<in>set pre. Name x \<noteq> name) \<and>
            Name m = name \<and> locateSymbol E w name dir = Inr (Some m))) \<and>
      (ms \<noteq> [] \<and> (\<forall>m\<in>set ms. Name m \<noteq> name) \<longrightarrow>
         locateSymbol E w name dir = Inr (Some (hd ms)))) \<and>
   (searchSymbols E w name ''.'' '''' = Inr [] \<longrightarrow>
      Replace E w name fname newCode = (Inl (NotFound name), w) \<and>
      Delete E w name fname = (Inl (NotFound name), w)) \<and>
   (searchSymbols resolverEnv resolverWorld ''Delete'' ''.'' ''''
      = Inr [userDelete_loc, delete_loc] \<and>
    Name userDelete_loc = ''UserDelete'' \<and> Name delete_loc = ''Delete'' \<and>
    locateSymbol resolverEnv resolverWorld ''Delete'' ''.'' = Inr (Some delete_loc))"
proof (intro conjI impI)
  show "searchSymbols resolverEnv resolverWorld ''Delete'' ''.'' ''''
      = Inr [userDelete_loc, delete_loc]"
    by (rule resolver_search)
  show "Name userDelete_loc = ''UserDelete''" by (simp add: userDelete_loc_def)
  show "Name delete_loc = ''Delete''" by (simp add: delete_loc_def)
  show "locateSymbol resolverEnv resolverWorld ''Delete'' ''.'' = Inr (Some delete_loc)"
    by (simp add: locateSymbol_def resolver_search userDelete_loc_def delete_loc_def)
next
  assume "searchSymbols E w name ''.'' '''' = Inr []"
  then have "locateSymbol E w name ''.'' = Inr None"
    by (simp add: locateSymbol_def)
  then show "Replace E w name fname newCode = (Inl (NotFound name), w)"
    and "Delete E w name fname = (Inl (NotFound name), w)"
    by (simp_all add: Replace_def Delete_def)
next
  assume "searchSymbols E w name dir '''' = Inl err"
  then show "locateSymbol E w name dir = Inl err"
    by (simp add: locateSymbol_def)
next
  assume "searchSymbols E w name dir '''' = Inr ms" "ms = []"
  then show "locateSymbol E w name dir = Inr None"
    by (simp add: locateSymbol_def)
next
  assume s: "searchSymbols E w name dir '''' = Inr ms"
    and ex: "\<exists>m\<in>set ms. Name m = name"
  from ex have ne: "ms \<noteq> []" by auto
  from ex obtain m where f: "find (\<lambda>m. Name m = name) ms = Some m"
    by (cases "find (\<lambda>m. Name m = name) ms") (auto simp: find_None_iff)
  from find_first [OF f] obtain pre post where
    d: "ms = pre @ m # post" "\<forall>x\<in>set pre. Name x \<noteq> name" "Name m = name" by blast
  from s ne f have "locateSymbol E w name dir = Inr (Some m)"
    by (simp add: locateSymbol_def)
  with d show "\<exists>pre m post. ms = pre @ m # post \<and> (\<forall>x\<in>set pre. Name x \<noteq> name) \<and>
      Name m = name \<and> locateSymbol E w name dir = Inr (Some m)"
    by blast
next
  assume s: "searchSymbols E w name dir '''' = Inr ms"
    and n: "ms \<noteq> [] \<and> (\<forall>m\<in>set ms. Name m \<noteq> name)"
  then have "find (\<lambda>m. Name m = name) ms = None"
    by (simp add: find_None_iff)
  with s n show "locateSymbol E w name dir = Inr (Some (hd ms))"
    by (simp add: locateSymbol_def hd_conv_nth)
qed

text \<open>
  The theorem in the project of the example: the query \<open>Delete\<close> has the exact match
  \<open>Delete\<close> after \<open>UserDelete\<close>, the query \<open>delete\<close> has two records and no exact match,
  and the query \<open>Create\<close> has no record.
\<close>

theorem locateSymbol_policy_witness:
  "searchSymbols resolverEnv resolverWorld ''Delete'' ''.'' '''' = Inr [userDelete_loc, delete_loc] \<and>
   (\<exists>m\<in>set [userDelete_loc, delete_loc]. Name m = ''Delete'') \<and>
   locateSymbol resolverEnv resolverWorld ''Delete'' ''.'' = Inr (Some delete_loc) \<and>
   searchSymbols resolverEnv resolverWorld ''delete'' ''.'' '''' = Inr [userDelete_loc, delete_loc] \<and>
   Name userDelete_loc \<noteq> ''delete'' \<and> Name delete_loc \<noteq> ''delete'' \<and>
   locateSymbol resolverEnv resolverWorld ''delete'' ''.'' = Inr (Some userDelete_loc) \<and>
   searchSymbols resolverEnv resolverWorld ''Create'' ''.'' '''' = Inr [] \<and>
   locateSymbol resolverEnv resolverWorld ''Create'' ''.'' = Inr None \<and>
   Replace resolverEnv resolverWorld ''Create'' '''' (Some ''func Create() {}'')
     = (Inl (NotFound ''Create''), resolverWorld) \<and>
   Delete resolverEnv resolverWorld ''Create'' '''' = (Inl (NotFound ''Create''), resolverWorld)"
proof -
  have ex: "\<exists>m\<in>set [userDelete_loc, delete_loc]. Name m = ''Delete''"
    by (simp add: delete_loc_def)
  from locateSymbol_policy [where E = resolverEnv and w = resolverWorld and name = "''Delete''"
      and dir = "''.''" and ms = "[userDelete_loc, delete_loc]"] resolver_search ex
  obtain pre m post where d: "[userDelete_loc, delete_loc] = pre @ m # post"
      "\<forall>x\<in>set pre. Name x \<noteq> ''Delete''" "Name m = ''Delete''"
      "locateSymbol resolverEnv resolverWorld ''Delete'' ''.'' = Inr (Some m)"
    by blast
  have "Name userDelete_loc \<noteq> ''Delete''" by (simp add: userDelete_loc_def)
  with d(1,3) have "m = delete_loc"
    by (auto simp: Cons_eq_append_conv append_eq_Cons_conv)
  with d(4) have exact: "locateSymbol resolverEnv resolverWorld ''Delete'' ''.'' = Inr (Some delete_loc)"
    by simp
  have no: "[userDelete_loc, delete_loc] \<noteq> [] \<and>
      (\<forall>m\<in>set [userDelete_loc, delete_loc]. Name m \<noteq> ''delete'')"
    by (simp add: userDelete_loc_def delete_loc_def)
  from locateSymbol_policy [where E = resolverEnv and w = resolverWorld and name = "''delete''"
      and dir = "''.''" and ms = "[userDelete_loc, delete_loc]"] resolver_search_lower no
  have "locateSymbol resolverEnv resolverWorld ''delete'' ''.'' = Inr (Some (hd [userDelete_loc, delete_loc]))"
    by blast
  then have first: "locateSymbol resolverEnv resolverWorld ''delete'' ''.'' = Inr (Some userDelete_loc)"
    by simp
  from locateSymbol_policy [where E = resolverEnv and w = resolverWorld and name = "''Create''"
      and dir = "''.''" and ms = "[]" and fname = "''''"
      and newCode = "Some ''func Create() {}''"] resolver_search_none
  have none: "locateSymbol resolverEnv resolverWorld ''Create'' ''.'' = Inr None"
    "Replace resolverEnv resolverWorld ''Create'' '''' (Some ''func Create() {}'')
       = (Inl (NotFound ''Create''), resolverWorld)"
    "Delete resolverEnv resolverWorld ''Create'' '''' = (Inl (NotFound ''Create''), resolverWorld)"
    by blast+
  from exact first none ex no resolver_search resolver_search_lower resolver_search_none
  show ?thesis by simp
qed

end
